theory Spec2Isabelle
  imports Complex_Main "HOL-Library.Product_Lexorder"
begin

section \<open>Data model (app/models.py)\<close>

text \<open>
  The Django models are embedded as records, one per model class, holding the fields the
  attendance operations read or write. Database tables are lists of rows in storage
  order. A foreign key that the code follows as an attribute (\<open>timetable.course\<close>,
  \<open>timetable.lecture_hall\<close>) is the referenced row itself; a foreign key that the code
  only compares (\<open>student=user\<close>, \<open>timetable=current_timetable\<close>, \<open>course=course\<close>) is
  the primary key of the referenced row, which is what Django compares.

  Python floats and Django decimals are embedded as \<open>real\<close>: comparisons are the
  mathematical ones and rounding is not part of the model. A time of day
  (\<open>datetime.time\<close>) is a natural number of microseconds since midnight; only its order
  is used.
\<close>

datatype user_type = STUDENT | LECTURER | ADMIN

datatype status = PRESENT | ABSENT | VOIDED

record user =
  user_id :: nat
  user_type :: user_type
  department :: "nat option"
  level :: "int option"
  courses :: "nat list"

record course =
  course_id :: nat
  course_department :: nat
  course_level :: int

record lecture_hall =
  hall_id :: nat
  latitude :: real
  longitude :: real
  radius :: int

record timetable =
  timetable_id :: nat
  tt_course :: course
  day_of_week :: int
  start_time :: nat
  end_time :: nat
  tt_lecture_hall :: lecture_hall
  active :: bool

record attendance =
  att_student :: nat
  att_course :: nat
  att_timetable :: nat
  att_latitude :: "real option"
  att_longitude :: "real option"
  att_status :: status

section \<open>Statistics (Attendance.attendance_percentage, Attendance.quartile, course_stats)\<close>

text \<open>
  \<open>Attendance.attendance_percentage\<close> (models.py 143-151): the denominator counts the
  timetable rows of the record's course that have \<open>active=True\<close>; the numerator counts the
  PRESENT attendance rows of the record's student for that course.
\<close>

definition attendance_percentage :: "timetable list \<Rightarrow> attendance list \<Rightarrow> attendance \<Rightarrow> real" where
  "attendance_percentage timetables attendances self =
     (let total_classes =
            length (filter (\<lambda>t. course_id (tt_course t) = att_course self \<and> active t) timetables);
          attended_classes =
            length (filter (\<lambda>a. att_student a = att_student self \<and>
                                 att_course a = att_course self \<and>
                                 att_status a = PRESENT) attendances)
      in if total_classes > 0
         then real attended_classes / real total_classes * 100
         else 0)"

text \<open>
  The branches of \<open>Attendance.quartile\<close> (models.py 156-167), as a function of the
  percentage it reads.
\<close>

definition quartile_of :: "real \<Rightarrow> nat" where
  "quartile_of percentage =
     (if percentage = 0 then 0
      else if percentage \<le> 25 then 1
      else if percentage \<le> 50 then 2
      else if percentage \<le> 75 then 3
      else if percentage < 100 then 4
      else 5)"

definition quartile :: "timetable list \<Rightarrow> attendance list \<Rightarrow> attendance \<Rightarrow> nat" where
  "quartile timetables attendances self =
     quartile_of (attendance_percentage timetables attendances self)"

text \<open>
  The value of the local variable \<open>percentage\<close> in \<open>AttendanceViewSet.course_stats\<close>
  (api.py 375-381 for the requesting student, 414-418 for each student of a lecturer's
  course): the denominator counts every timetable row of the course. It is an
  intermediate value; what the view does with it is \<open>course_stats\<close> below.
\<close>

definition course_stats_percentage :: "timetable list \<Rightarrow> attendance list \<Rightarrow> user \<Rightarrow> course \<Rightarrow> real" where
  "course_stats_percentage timetables attendances usr crs =
     (let total_classes =
            length (filter (\<lambda>t. course_id (tt_course t) = course_id crs) timetables);
          attended_classes =
            length (filter (\<lambda>a. att_student a = user_id usr \<and>
                                 att_course a = course_id crs \<and>
                                 att_status a = PRESENT) attendances)
      in if total_classes > 0
         then real attended_classes / real total_classes * 100
         else 0)"

section \<open>Resolving the current class\<close>

text \<open>
  \<open>QuerySet.first()\<close>: the first row of the ordered query set, \<open>None\<close> when it is empty.
\<close>

definition queryset_first :: "'a list \<Rightarrow> 'a option" where
  "queryset_first rows = (case rows of [] \<Rightarrow> None | r # _ \<Rightarrow> Some r)"

text \<open>
  \<open>Timetable.Meta.ordering = ['day_of_week', 'start_time']\<close> (models.py 106-108). Rows
  with equal keys keep their storage order.
\<close>

definition timetable_ordering :: "timetable list \<Rightarrow> timetable list" where
  "timetable_ordering rows = sort_key (\<lambda>t. (day_of_week t, start_time t)) rows"

text \<open>
  The query of api.py 263-269. \<open>user.department\<close> is a nullable foreign key; a course
  always has a department, so a user without one matches no row.
\<close>

definition is_current :: "int \<Rightarrow> nat \<Rightarrow> nat option \<Rightarrow> timetable \<Rightarrow> bool" where
  "is_current today current_time dept t \<longleftrightarrow>
     day_of_week t = today \<and>
     start_time t \<le> current_time \<and>
     end_time t \<ge> current_time \<and>
     Some (course_department (tt_course t)) = dept \<and>
     active t"

definition current_timetable :: "timetable list \<Rightarrow> int \<Rightarrow> nat \<Rightarrow> nat option \<Rightarrow> timetable option" where
  "current_timetable timetables today current_time dept =
     queryset_first (timetable_ordering (filter (is_current today current_time dept) timetables))"

section \<open>Marking attendance (AttendanceViewSet.mark_attendance)\<close>

text \<open>
  Exceptions that the views do not catch. \<open>TypeError\<close> is raised by \<open>float(None)\<close>,
  \<open>ValueError\<close> by the geodesic library on a point it refuses, \<open>IntegrityError\<close> by the
  storage layer on a violated \<open>unique_together\<close>, \<open>ZeroDivisionError\<close> by \<open>/\<close>,
  \<open>FieldDoesNotExist\<close> by \<open>_meta.get_field\<close> on a name that is not a field of the model.
\<close>

datatype py_exception =
  TypeError | ValueError | IntegrityError | ZeroDivisionError | FieldDoesNotExist

text \<open>
  The responses of \<open>mark_attendance\<close>, in the order of the source:
  403 "Only students can mark attendance", 403 "No active class at this time",
  400 "Attendance already marked for this class", 403 with \<open>distance\<close> and
  \<open>allowed_radius\<close>, 201 with the new record.
\<close>

datatype mark_response =
    Forbidden
  | NoActiveSession
  | AlreadyMarked
  | OutOfRange real int
  | Created attendance

text \<open>
  \<open>Attendance.objects.create\<close> under \<open>unique_together = ('student', 'timetable')\<close>
  (models.py 136-137): the storage layer refuses a second row for the pair.
\<close>

definition objects_create :: "attendance list \<Rightarrow> attendance \<Rightarrow> py_exception + attendance list" where
  "objects_create attendances row =
     (if filter (\<lambda>a. att_student a = att_student row \<and>
                      att_timetable a = att_timetable row) attendances \<noteq> []
      then Inl IntegrityError
      else Inr (attendances @ [row]))"

text \<open>
  The constraint itself: no two attendance rows share student and timetable.
\<close>

definition unique_together :: "attendance list \<Rightarrow> bool" where
  "unique_together attendances \<longleftrightarrow>
     distinct (map (\<lambda>a. (att_student a, att_timetable a)) attendances)"

text \<open>
  \<open>mark_attendance\<close> (api.py 252-306). The clock readings \<open>current_time\<close> and \<open>today\<close>
  are inputs. \<open>geopy.distance.distance(a, b).m\<close> is a library outside the repository: it
  is the parameter \<open>distance_m\<close>, \<open>None\<close> where the library raises. The request values
  \<open>latitude\<close> and \<open>longitude\<close> are \<open>None\<close> when the key is absent and \<open>Some x\<close> for the
  number \<open>x\<close>. The result is the response, or the uncaught exception, and the attendance
  table afterwards.
\<close>

definition mark_attendance ::
  "(real \<times> real \<Rightarrow> real \<times> real \<Rightarrow> real option) \<Rightarrow> nat \<Rightarrow> int \<Rightarrow> timetable list \<Rightarrow>
   attendance list \<Rightarrow> user \<Rightarrow> real option \<Rightarrow> real option \<Rightarrow>
   (py_exception + mark_response) \<times> attendance list" where
  "mark_attendance distance_m current_time today timetables attendances usr lat lon =
     (if user_type usr \<noteq> STUDENT then (Inr Forbidden, attendances)
      else
        (case current_timetable timetables today current_time (department usr) of
           None \<Rightarrow> (Inr NoActiveSession, attendances)
         | Some tt \<Rightarrow>
             (if filter (\<lambda>a. att_student a = user_id usr \<and>
                             att_timetable a = timetable_id tt) attendances \<noteq> []
              then (Inr AlreadyMarked, attendances)
              else
                (let hall = tt_lecture_hall tt;
                     hall_coords = (latitude hall, longitude hall)
                 in (case lat of
                       None \<Rightarrow> (Inl TypeError, attendances)
                     | Some la \<Rightarrow>
                         (case lon of
                            None \<Rightarrow> (Inl TypeError, attendances)
                          | Some lo \<Rightarrow>
                              (case distance_m hall_coords (la, lo) of
                                 None \<Rightarrow> (Inl ValueError, attendances)
                               | Some distance \<Rightarrow>
                                   (if distance > real_of_int (radius hall)
                                    then (Inr (OutOfRange distance (radius hall)), attendances)
                                    else
                                      (let row = \<lparr>att_student = user_id usr,
                                                  att_course = course_id (tt_course tt),
                                                  att_timetable = timetable_id tt,
                                                  att_latitude = lat,
                                                  att_longitude = lon,
                                                  att_status = PRESENT\<rparr>
                                       in (case objects_create attendances row of
                                             Inl e \<Rightarrow> (Inl e, attendances)
                                           | Inr attendances' \<Rightarrow>
                                               (Inr (Created row), attendances')))))))))))"

section \<open>Auditing attendance (ValidateAttendanceView.post)\<close>

text \<open>
  The query of api.py 634-639: the enabled timetable rows of today whose end time lies
  between \<open>one_hour_ago\<close> and \<open>current_time\<close>. The two bounds come from different clock
  readings in the source (\<open>datetime.now()\<close> and \<open>timezone.now()\<close>), so both are inputs.
\<close>

definition recent_classes :: "timetable list \<Rightarrow> int \<Rightarrow> nat \<Rightarrow> nat \<Rightarrow> timetable list" where
  "recent_classes timetables today one_hour_ago current_time =
     timetable_ordering
       (filter (\<lambda>t. day_of_week t = today \<and>
                     end_time t \<ge> one_hour_ago \<and>
                     end_time t \<le> current_time \<and>
                     active t) timetables)"

text \<open>The two counts of api.py 644-650.\<close>

definition total_students :: "user list \<Rightarrow> timetable \<Rightarrow> nat" where
  "total_students users t =
     length (filter (\<lambda>u. user_type u = STUDENT \<and>
                          department u = Some (course_department (tt_course t)) \<and>
                          level u = Some (course_level (tt_course t))) users)"

definition marked_attendance :: "attendance list \<Rightarrow> timetable \<Rightarrow> nat" where
  "marked_attendance attendances t =
     length (filter (\<lambda>a. att_timetable a = timetable_id t) attendances)"

text \<open>
  The voiding step of api.py 654,
  \<open>Attendance.objects.filter(timetable=timetable).update(status=VOIDED)\<close>: every row of
  the timetable gets the status VOIDED, and \<open>update\<close> returns the number of rows the
  filter matched.
\<close>

definition update_status_voided :: "attendance list \<Rightarrow> timetable \<Rightarrow> attendance list \<times> nat" where
  "update_status_voided attendances t =
     (map (\<lambda>a. if att_timetable a = timetable_id t then a\<lparr>att_status := VOIDED\<rparr> else a)
          attendances,
      length (filter (\<lambda>a. att_timetable a = timetable_id t) attendances))"

text \<open>
  The loop of api.py 643-655 over the recent classes, with the running \<open>voided_count\<close>.
  Python's \<open>/\<close> raises \<open>ZeroDivisionError\<close> on a zero divisor; the view does not catch
  it, and the rows updated before it stay updated.
\<close>

fun validate_loop ::
  "user list \<Rightarrow> timetable list \<Rightarrow> attendance list \<Rightarrow> nat \<Rightarrow>
   (py_exception + nat) \<times> attendance list" where
  "validate_loop users [] attendances voided_count = (Inr voided_count, attendances)"
| "validate_loop users (t # rest) attendances voided_count =
     (if total_students users t = 0 then (Inl ZeroDivisionError, attendances)
      else if real (marked_attendance attendances t) / real (total_students users t) < 1 / 10
      then validate_loop users rest (fst (update_status_voided attendances t))
             (voided_count + snd (update_status_voided attendances t))
      else validate_loop users rest attendances voided_count)"

record validation_response =
  voided_count :: nat
  total_classes :: nat

definition post ::
  "user list \<Rightarrow> timetable list \<Rightarrow> attendance list \<Rightarrow> int \<Rightarrow> nat \<Rightarrow> nat \<Rightarrow>
   (py_exception + validation_response) \<times> attendance list" where
  "post users timetables attendances today one_hour_ago current_time =
     (let classes = recent_classes timetables today one_hour_ago current_time
      in (case validate_loop users classes attendances 0 of
            (Inl e, attendances') \<Rightarrow> (Inl e, attendances')
          | (Inr n, attendances') \<Rightarrow>
              (Inr \<lparr>voided_count = n, total_classes = length classes\<rparr>, attendances')))"

section \<open>Course statistics (AttendanceViewSet.course_stats)\<close>

text \<open>
  The fields of the \<open>Attendance\<close> model: the automatic primary key and the fields
  declared at models.py 128-134. \<open>attendance_percentage\<close>, \<open>quartile\<close> and
  \<open>feedback_message\<close> are properties (models.py 143-180), not fields.
\<close>

definition attendance_fields :: "string list" where
  "attendance_fields =
     [''id'', ''student'', ''course'', ''timetable'', ''timestamp'',
      ''latitude'', ''longitude'', ''status'']"

text \<open>
  \<open>Attendance._meta.get_field(name)\<close>: the field of that name, and \<open>FieldDoesNotExist\<close>
  when the model has no such field. A field that is found is kept as its name; the
  value \<open>value_from_object\<close> would read through it stays symbolic.
\<close>

definition get_field :: "string \<Rightarrow> py_exception + string" where
  "get_field name =
     (if name \<in> set attendance_fields then Inr name else Inl FieldDoesNotExist)"

text \<open>
  The response bodies of \<open>course_stats\<close>: the dictionary of the student branch
  (api.py 383-397) and one row of the list of the lecturer branch (api.py 420-436;
  the name fields of the row are left out).
\<close>

record student_stats =
  stats_total_classes :: nat
  stats_attended_classes :: nat
  stats_percentage :: real
  stats_quartile :: string
  stats_feedback :: string

record lecturer_row =
  row_student_id :: nat
  row_attended_classes :: nat
  row_percentage :: real
  row_quartile :: string
  row_feedback :: string

text \<open>
  The outcomes of \<open>course_stats\<close>, in the order of the source: 400 "course_id is
  required", 404 "Course not found", 403 "You are not teaching this course", the
  student's statistics, the lecturer's list; \<open>NoResponse\<close> is the function reaching its
  end without a \<open>return\<close>, for a user who is neither student nor lecturer.
\<close>

datatype stats_response =
    CourseIdRequired
  | CourseNotFound
  | NotTeaching
  | StudentStats student_stats
  | LecturerStats "lecturer_row list"
  | NoResponse

text \<open>
  The loop of api.py 417-436 over the students of the course's department and level.
  Each row is built by a dictionary display whose \<open>quartile\<close> and \<open>feedback\<close> entries
  go through \<open>get_field\<close>.
\<close>

fun lecturer_rows ::
  "timetable list \<Rightarrow> attendance list \<Rightarrow> course \<Rightarrow> user list \<Rightarrow>
   py_exception + lecturer_row list" where
  "lecturer_rows timetables attendances crs [] = Inr []"
| "lecturer_rows timetables attendances crs (student # rest) =
     (case get_field ''quartile'' of
        Inl e \<Rightarrow> Inl e
      | Inr quartile_field \<Rightarrow>
          (case get_field ''feedback_message'' of
             Inl e \<Rightarrow> Inl e
           | Inr feedback_field \<Rightarrow>
               (case lecturer_rows timetables attendances crs rest of
                  Inl e \<Rightarrow> Inl e
                | Inr rows \<Rightarrow>
                    Inr (\<lparr>row_student_id = user_id student,
                          row_attended_classes =
                            length (filter (\<lambda>a. att_student a = user_id student \<and>
                                                 att_course a = course_id crs \<and>
                                                 att_status a = PRESENT) attendances),
                          row_percentage =
                            course_stats_percentage timetables attendances student crs,
                          row_quartile = quartile_field,
                          row_feedback = feedback_field\<rparr> # rows))))"

text \<open>
  \<open>course_stats\<close> (api.py 362-438). The query parameter \<open>course_id\<close> is \<open>None\<close> when
  it is absent or empty. In the student branch the three numbers are computed first
  (api.py 375-381); the response dictionary is then built entry by entry, and its
  \<open>quartile\<close> entry starts with \<open>Attendance._meta.get_field('quartile')\<close> (api.py 387).
\<close>

definition course_stats ::
  "course list \<Rightarrow> timetable list \<Rightarrow> attendance list \<Rightarrow> user list \<Rightarrow> user \<Rightarrow> nat option \<Rightarrow>
   py_exception + stats_response" where
  "course_stats course_table timetables attendances users usr course_id_param =
     (case course_id_param of
        None \<Rightarrow> Inr CourseIdRequired
      | Some cid \<Rightarrow>
          (case find (\<lambda>c. course_id c = cid) course_table of
             None \<Rightarrow> Inr CourseNotFound
           | Some crs \<Rightarrow>
               (if user_type usr = STUDENT then
                  (let total_classes =
                         length (filter (\<lambda>t. course_id (tt_course t) = course_id crs)
                                   timetables);
                       attended_classes =
                         length (filter (\<lambda>a. att_student a = user_id usr \<and>
                                              att_course a = course_id crs \<and>
                                              att_status a = PRESENT) attendances);
                       percentage = course_stats_percentage timetables attendances usr crs
                   in (case get_field ''quartile'' of
                         Inl e \<Rightarrow> Inl e
                       | Inr quartile_field \<Rightarrow>
                           (case get_field ''feedback_message'' of
                              Inl e \<Rightarrow> Inl e
                            | Inr feedback_field \<Rightarrow>
                                Inr (StudentStats
                                      \<lparr>stats_total_classes = total_classes,
                                        stats_attended_classes = attended_classes,
                                        stats_percentage = percentage,
                                        stats_quartile = quartile_field,
                                        stats_feedback = feedback_field\<rparr>))))
                else if user_type usr = LECTURER then
                  (if course_id crs \<notin> set (courses usr) then Inr NotTeaching
                   else
                     (case lecturer_rows timetables attendances crs
                             (filter (\<lambda>u. user_type u = STUDENT \<and>
                                           department u = Some (course_department crs) \<and>
                                           level u = Some (course_level crs)) users) of
                        Inl e \<Rightarrow> Inl e
                      | Inr rows \<Rightarrow> Inr (LecturerStats rows)))
                else Inr NoResponse)))"

section \<open>Example data\<close>

text \<open>
  The venue, class and student of the scenarios: a class on Monday 08:00-10:00 at a venue
  at (6.5244, 3.3792) with radius 100, a second class overlapping it, a disabled one, a
  class on Tuesday, a venue with radius 0, and a course of a department without students.
\<close>

definition hours :: "nat \<Rightarrow> nat" where
  "hours h = h * 3600000000"

text \<open>
  A distance function for the examples, standing in for the geodesic library: 100000
  metres per degree along each axis. A point is at distance 0 from itself, as with any
  geodesic distance.
\<close>

definition grid_distance_m :: "real \<times> real \<Rightarrow> real \<times> real \<Rightarrow> real option" where
  "grid_distance_m a b = Some (100000 * (\<bar>fst a - fst b\<bar> + \<bar>snd a - snd b\<bar>))"

definition venue_V :: lecture_hall where
  "venue_V = \<lparr>hall_id = 1, latitude = 65244 / 10000, longitude = 33792 / 10000, radius = 100\<rparr>"

definition venue_Z :: lecture_hall where
  "venue_Z = \<lparr>hall_id = 2, latitude = 65244 / 10000, longitude = 33792 / 10000, radius = 0\<rparr>"

definition course_A :: course where
  "course_A = \<lparr>course_id = 1, course_department = 1, course_level = 200\<rparr>"

definition course_B :: course where
  "course_B = \<lparr>course_id = 2, course_department = 2, course_level = 300\<rparr>"

definition monday_8_to_10 :: timetable where
  "monday_8_to_10 = \<lparr>timetable_id = 1, tt_course = course_A, day_of_week = 0,
     start_time = hours 8, end_time = hours 10, tt_lecture_hall = venue_V, active = True\<rparr>"

definition monday_9_to_11 :: timetable where
  "monday_9_to_11 = \<lparr>timetable_id = 2, tt_course = course_A, day_of_week = 0,
     start_time = hours 9, end_time = hours 11, tt_lecture_hall = venue_V, active = True\<rparr>"

definition monday_7_to_12_disabled :: timetable where
  "monday_7_to_12_disabled = \<lparr>timetable_id = 3, tt_course = course_A, day_of_week = 0,
     start_time = hours 7, end_time = hours 12, tt_lecture_hall = venue_V, active = False\<rparr>"

definition tuesday_8_to_10 :: timetable where
  "tuesday_8_to_10 = \<lparr>timetable_id = 4, tt_course = course_A, day_of_week = 1,
     start_time = hours 8, end_time = hours 10, tt_lecture_hall = venue_V, active = True\<rparr>"

definition monday_8_to_10_at_Z :: timetable where
  "monday_8_to_10_at_Z = \<lparr>timetable_id = 5, tt_course = course_A, day_of_week = 0,
     start_time = hours 8, end_time = hours 10, tt_lecture_hall = venue_Z, active = True\<rparr>"

definition monday_8_to_10_course_B :: timetable where
  "monday_8_to_10_course_B = \<lparr>timetable_id = 6, tt_course = course_B, day_of_week = 0,
     start_time = hours 8, end_time = hours 10, tt_lecture_hall = venue_V, active = True\<rparr>"

definition student_1 :: user where
  "student_1 = \<lparr>user_id = 10, user_type = STUDENT, department = Some 1, level = Some 200,
     courses = []\<rparr>"

definition present_row :: "nat \<Rightarrow> attendance" where
  "present_row tid = \<lparr>att_student = 10, att_course = 1, att_timetable = tid,
     att_latitude = Some (65244 / 10000), att_longitude = Some (33792 / 10000),
     att_status = PRESENT\<rparr>"

section \<open>Quartile buckets\<close>

text \<open>
  C3. For every percentage \<open>p \<ge> 0\<close> the quartile is 0 if \<open>p = 0\<close>, 1 if \<open>0 < p \<le> 25\<close>,
  2 if \<open>25 < p \<le> 50\<close>, 3 if \<open>50 < p \<le> 75\<close>, 4 if \<open>75 < p < 100\<close> and 5 if \<open>p = 100\<close>;
  in particular the quartiles of 0, 25, 25.01, 50, 75, 99.99 and 100 are
  0, 1, 2, 2, 3, 4 and 5.
\<close>

theorem quartile_of_buckets:
  assumes "0 \<le> p"
  shows "(p = 0 \<longrightarrow> quartile_of p = 0)
       \<and> (0 < p \<and> p \<le> 25 \<longrightarrow> quartile_of p = 1)
       \<and> (25 < p \<and> p \<le> 50 \<longrightarrow> quartile_of p = 2)
       \<and> (50 < p \<and> p \<le> 75 \<longrightarrow> quartile_of p = 3)
       \<and> (75 < p \<and> p < 100 \<longrightarrow> quartile_of p = 4)
       \<and> (p = 100 \<longrightarrow> quartile_of p = 5)
       \<and> quartile_of 0 = 0 \<and> quartile_of 25 = 1 \<and> quartile_of (2501 / 100) = 2
       \<and> quartile_of 50 = 2 \<and> quartile_of 75 = 3 \<and> quartile_of (9999 / 100) = 4
       \<and> quartile_of 100 = 5"
  using assms by (simp add: quartile_of_def)

theorem quartile_of_buckets_witness:
  "(0::real) \<le> 2501 / 100 \<and> quartile_of (2501 / 100) = 2 \<and> quartile_of (9999 / 100) = 4"
  using quartile_of_buckets [of "2501 / 100"] by simp

section \<open>The current class\<close>











section \<open>Marking attendance: helper facts\<close>

lemma mark_attendance_existing:
  assumes "user_type usr = STUDENT"
    and "current_timetable timetables today current_time (department usr) = Some tt"
    and "filter (\<lambda>a. att_student a = user_id usr \<and> att_timetable a = timetable_id tt)
           attendances \<noteq> []"
  shows "mark_attendance distance_m current_time today timetables attendances usr lat lon
         = (Inr AlreadyMarked, attendances)"
  using assms by (simp add: mark_attendance_def)

lemma mark_attendance_geofence:
  assumes "user_type usr = STUDENT"
    and "current_timetable timetables today current_time (department usr) = Some tt"
    and "filter (\<lambda>a. att_student a = user_id usr \<and> att_timetable a = timetable_id tt)
           attendances = []"
  shows "mark_attendance distance_m current_time today timetables attendances usr
           (Some la) (Some lo)
         = (case distance_m (latitude (tt_lecture_hall tt), longitude (tt_lecture_hall tt))
                   (la, lo) of
              None \<Rightarrow> (Inl ValueError, attendances)
            | Some d \<Rightarrow>
                if d > real_of_int (radius (tt_lecture_hall tt))
                then (Inr (OutOfRange d (radius (tt_lecture_hall tt))), attendances)
                else (Inr (Created \<lparr>att_student = user_id usr,
                                     att_course = course_id (tt_course tt),
                                     att_timetable = timetable_id tt,
                                     att_latitude = Some la, att_longitude = Some lo,
                                     att_status = PRESENT\<rparr>),
                      attendances @ [\<lparr>att_student = user_id usr,
                                     att_course = course_id (tt_course tt),
                                     att_timetable = timetable_id tt,
                                     att_latitude = Some la, att_longitude = Some lo,
                                     att_status = PRESENT\<rparr>]))"
  using assms by (simp add: mark_attendance_def objects_create_def Let_def split: option.splits)

lemma mark_attendance_cases:
  "snd (mark_attendance distance_m current_time today timetables attendances usr lat lon)
     = attendances
   \<or> (\<exists>row. mark_attendance distance_m current_time today timetables attendances usr lat lon
         = (Inr (Created row), attendances @ [row])
       \<and> filter (\<lambda>a. att_student a = att_student row \<and> att_timetable a = att_timetable row)
             attendances = [])"
  by (auto simp add: mark_attendance_def objects_create_def Let_def
      split: option.splits if_splits)

lemma mark_attendance_unique_together:
  assumes "unique_together attendances"
  shows "unique_together
           (snd (mark_attendance distance_m current_time today timetables attendances usr lat lon))"
proof -
  consider
    (same) "snd (mark_attendance distance_m current_time today timetables attendances usr lat lon)
             = attendances"
  | (new) row where
      "mark_attendance distance_m current_time today timetables attendances usr lat lon
         = (Inr (Created row), attendances @ [row])"
      "filter (\<lambda>a. att_student a = att_student row \<and> att_timetable a = att_timetable row)
             attendances = []"
    using mark_attendance_cases [of distance_m current_time today timetables attendances usr lat lon]
    by blast
  then show ?thesis
  proof cases
    case same
    then show ?thesis using assms by simp
  next
    case new
    from new(2) have "(att_student row, att_timetable row)
        \<notin> set (map (\<lambda>a. (att_student a, att_timetable a)) attendances)"
      by (auto simp: filter_empty_conv)
    then show ?thesis using assms new(1) by (simp add: unique_together_def)
  qed
qed

text \<open>Evaluation of the example data.\<close>

lemma current_monday_9:
  "current_timetable [monday_8_to_10] 0 (hours 9) (department student_1) = Some monday_8_to_10"
  by (simp add: current_timetable_def queryset_first_def timetable_ordering_def is_current_def
      monday_8_to_10_def course_A_def hours_def student_1_def)

lemma current_monday_9_at_Z:
  "current_timetable [monday_8_to_10_at_Z] 0 (hours 9) (department student_1)
     = Some monday_8_to_10_at_Z"
  by (simp add: current_timetable_def queryset_first_def timetable_ordering_def is_current_def
      monday_8_to_10_at_Z_def course_A_def hours_def student_1_def)

lemma student_1_is_student: "user_type student_1 = STUDENT"
  by (simp add: student_1_def)

lemma no_row_yet:
  "filter (\<lambda>a. att_student a = user_id student_1 \<and> att_timetable a = timetable_id tt) [] = []"
  by simp

lemma venue_of_monday:
  "latitude (tt_lecture_hall monday_8_to_10) = 65244 / 10000"
  "longitude (tt_lecture_hall monday_8_to_10) = 33792 / 10000"
  "radius (tt_lecture_hall monday_8_to_10) = 100"
  by (simp_all add: monday_8_to_10_def venue_V_def)

lemma venue_of_monday_at_Z:
  "latitude (tt_lecture_hall monday_8_to_10_at_Z) = 65244 / 10000"
  "longitude (tt_lecture_hall monday_8_to_10_at_Z) = 33792 / 10000"
  "radius (tt_lecture_hall monday_8_to_10_at_Z) = 0"
  by (simp_all add: monday_8_to_10_at_Z_def venue_Z_def)

section \<open>Duplicate marks\<close>

text \<open>
  C4. When the caller is a student, the timetable row resolved for the caller's
  department is \<open>tt\<close> and an attendance row for (caller, \<open>tt\<close>) already exists, a
  further \<open>mark_attendance\<close> call answers "already marked" and leaves the attendance
  table unchanged. No call ever adds a second row for a (student, timetable) pair: the
  \<open>unique_together\<close> constraint is preserved.
\<close>

theorem mark_attendance_already_marked:
  "(user_type usr = STUDENT \<and>
    current_timetable timetables today current_time (department usr) = Some tt \<and>
    a \<in> set attendances \<and> att_student a = user_id usr \<and> att_timetable a = timetable_id tt
    \<longrightarrow> mark_attendance distance_m current_time today timetables attendances usr lat lon
          = (Inr AlreadyMarked, attendances))
   \<and> (unique_together attendances \<longrightarrow>
        unique_together
          (snd (mark_attendance distance_m current_time today timetables attendances
                  usr lat lon)))"
proof (intro conjI impI)
  assume h: "user_type usr = STUDENT \<and>
    current_timetable timetables today current_time (department usr) = Some tt \<and>
    a \<in> set attendances \<and> att_student a = user_id usr \<and> att_timetable a = timetable_id tt"
  then have "filter (\<lambda>a. att_student a = user_id usr \<and> att_timetable a = timetable_id tt)
           attendances \<noteq> []"
    by (auto simp: filter_empty_conv)
  with h show "mark_attendance distance_m current_time today timetables attendances usr lat lon
          = (Inr AlreadyMarked, attendances)"
    by (simp add: mark_attendance_existing)
next
  assume "unique_together attendances"
  then show "unique_together
          (snd (mark_attendance distance_m current_time today timetables attendances
                  usr lat lon))"
    by (rule mark_attendance_unique_together)
qed

theorem mark_attendance_already_marked_witness:
  "user_type student_1 = STUDENT
   \<and> current_timetable [monday_8_to_10] 0 (hours 9) (department student_1) = Some monday_8_to_10
   \<and> present_row 1 \<in> set [present_row 1]
   \<and> att_student (present_row 1) = user_id student_1
   \<and> att_timetable (present_row 1) = timetable_id monday_8_to_10
   \<and> unique_together [present_row 1]
   \<and> mark_attendance grid_distance_m (hours 9) 0 [monday_8_to_10] [present_row 1] student_1
        (Some (65244 / 10000)) (Some (33792 / 10000)) = (Inr AlreadyMarked, [present_row 1])
   \<and> unique_together
        (snd (mark_attendance grid_distance_m (hours 9) 0 [monday_8_to_10] [present_row 1]
                student_1 (Some (65244 / 10000)) (Some (33792 / 10000))))"
proof -
  have h3: "present_row 1 \<in> set [present_row 1]" by simp
  have h4: "att_student (present_row 1) = user_id student_1"
    by (simp add: present_row_def student_1_def)
  have h5: "att_timetable (present_row 1) = timetable_id monday_8_to_10"
    by (simp add: present_row_def monday_8_to_10_def)
  have u: "unique_together [present_row 1]"
    by (simp add: unique_together_def)
  show ?thesis
    using mark_attendance_already_marked [of student_1 "[monday_8_to_10]" 0 "hours 9"
        monday_8_to_10 "present_row 1" "[present_row 1]" grid_distance_m
        "Some (65244 / 10000)" "Some (33792 / 10000)"]
      student_1_is_student current_monday_9 h3 h4 h5 u
    by blast
qed

text \<open>
  C9. The duplicate check precedes the geofence check: for a student who already has a
  row for the resolved timetable row, the answer is "already marked" whatever
  coordinates are supplied and whatever the distance function would return (also where
  it would raise); it is never "out of range".
\<close>

theorem duplicate_check_precedes_geofence:
  assumes "user_type usr = STUDENT"
    and "current_timetable timetables today current_time (department usr) = Some tt"
    and "a \<in> set attendances"
    and "att_student a = user_id usr"
    and "att_timetable a = timetable_id tt"
  shows "fst (mark_attendance distance_m current_time today timetables attendances usr lat lon)
           = Inr AlreadyMarked
       \<and> fst (mark_attendance distance_m current_time today timetables attendances usr lat lon)
           \<noteq> Inr (OutOfRange d r)
       \<and> mark_attendance distance_m current_time today timetables attendances usr lat lon
           = mark_attendance distance_m' current_time today timetables attendances usr lat' lon'"
proof -
  have ex: "filter (\<lambda>a. att_student a = user_id usr \<and> att_timetable a = timetable_id tt)
           attendances \<noteq> []"
    using assms(3-5) by (auto simp: filter_empty_conv)
  show ?thesis
    by (simp add: mark_attendance_existing [OF assms(1,2) ex])
qed

theorem duplicate_check_precedes_geofence_witness:
  "user_type student_1 = STUDENT
   \<and> current_timetable [monday_8_to_10] 0 (hours 9) (department student_1) = Some monday_8_to_10
   \<and> present_row 1 \<in> set [present_row 1]
   \<and> att_student (present_row 1) = user_id student_1
   \<and> att_timetable (present_row 1) = timetable_id monday_8_to_10
   \<and> fst (mark_attendance grid_distance_m (hours 9) 0 [monday_8_to_10] [present_row 1] student_1
        (Some 0) (Some 0)) = Inr AlreadyMarked
   \<and> mark_attendance grid_distance_m (hours 9) 0 [monday_8_to_10] [present_row 1] student_1
        (Some 0) (Some 0)
     = mark_attendance grid_distance_m (hours 9) 0 [monday_8_to_10] [present_row 1] student_1
        None None"
proof -
  have h3: "present_row 1 \<in> set [present_row 1]" by simp
  have h4: "att_student (present_row 1) = user_id student_1"
    by (simp add: present_row_def student_1_def)
  have h5: "att_timetable (present_row 1) = timetable_id monday_8_to_10"
    by (simp add: present_row_def monday_8_to_10_def)
  have "fst (mark_attendance grid_distance_m (hours 9) 0 [monday_8_to_10] [present_row 1] student_1
        (Some 0) (Some 0)) = Inr AlreadyMarked
   \<and> mark_attendance grid_distance_m (hours 9) 0 [monday_8_to_10] [present_row 1] student_1
        (Some 0) (Some 0)
     = mark_attendance grid_distance_m (hours 9) 0 [monday_8_to_10] [present_row 1] student_1
        None None"
    using duplicate_check_precedes_geofence [OF student_1_is_student current_monday_9 h3 h4 h5,
        of grid_distance_m "Some 0" "Some 0" 0 0 grid_distance_m None None]
    by blast
  then show ?thesis
    using student_1_is_student current_monday_9 h3 h4 h5 by blast
qed

section \<open>The geofence decision\<close>

text \<open>
  C5. For a mark attempt of a student with a resolved timetable row, no prior row and a
  computed distance \<open>d\<close>: the attempt is accepted (a row is created) exactly when
  \<open>d \<le> radius\<close>, equality included; otherwise the answer is "out of range" carrying
  \<open>d\<close> and the radius, and no row is created.
\<close>

theorem geofence_decision:
  assumes "user_type usr = STUDENT"
    and "current_timetable timetables today current_time (department usr) = Some tt"
    and "filter (\<lambda>a. att_student a = user_id usr \<and> att_timetable a = timetable_id tt)
           attendances = []"
    and "distance_m (latitude (tt_lecture_hall tt), longitude (tt_lecture_hall tt)) (la, lo)
         = Some d"
  shows "((\<exists>row. mark_attendance distance_m current_time today timetables attendances usr
                  (Some la) (Some lo) = (Inr (Created row), attendances @ [row]))
          \<longleftrightarrow> d \<le> real_of_int (radius (tt_lecture_hall tt)))
       \<and> (\<not> d \<le> real_of_int (radius (tt_lecture_hall tt)) \<longrightarrow>
            mark_attendance distance_m current_time today timetables attendances usr
              (Some la) (Some lo)
            = (Inr (OutOfRange d (radius (tt_lecture_hall tt))), attendances))"
  using assms(4)
  by (simp add: mark_attendance_geofence [where distance_m = distance_m, OF assms(1-3)] not_le)

theorem geofence_decision_witness:
  "user_type student_1 = STUDENT
   \<and> current_timetable [monday_8_to_10] 0 (hours 9) (department student_1) = Some monday_8_to_10
   \<and> grid_distance_m (latitude (tt_lecture_hall monday_8_to_10),
        longitude (tt_lecture_hall monday_8_to_10)) (65254 / 10000, 33792 / 10000) = Some 100
   \<and> (\<exists>row. mark_attendance grid_distance_m (hours 9) 0 [monday_8_to_10] [] student_1
        (Some (65254 / 10000)) (Some (33792 / 10000)) = (Inr (Created row), [] @ [row]))
   \<and> grid_distance_m (latitude (tt_lecture_hall monday_8_to_10),
        longitude (tt_lecture_hall monday_8_to_10)) (65269 / 10000, 33792 / 10000) = Some 250
   \<and> mark_attendance grid_distance_m (hours 9) 0 [monday_8_to_10] [] student_1
        (Some (65269 / 10000)) (Some (33792 / 10000))
     = (Inr (OutOfRange 250 100), [])"
proof -
  have d1: "grid_distance_m (latitude (tt_lecture_hall monday_8_to_10),
               longitude (tt_lecture_hall monday_8_to_10)) (65254 / 10000, 33792 / 10000)
            = Some 100"
    by (simp add: venue_of_monday grid_distance_m_def)
  have d2: "grid_distance_m (latitude (tt_lecture_hall monday_8_to_10),
               longitude (tt_lecture_hall monday_8_to_10)) (65269 / 10000, 33792 / 10000)
            = Some 250"
    by (simp add: venue_of_monday grid_distance_m_def)
  have a: "\<exists>row. mark_attendance grid_distance_m (hours 9) 0 [monday_8_to_10] [] student_1
        (Some (65254 / 10000)) (Some (33792 / 10000)) = (Inr (Created row), [] @ [row])"
    using geofence_decision [where distance_m = grid_distance_m,
        OF student_1_is_student current_monday_9 no_row_yet d1]
    by (simp add: venue_of_monday)
  have b: "mark_attendance grid_distance_m (hours 9) 0 [monday_8_to_10] [] student_1
        (Some (65269 / 10000)) (Some (33792 / 10000)) = (Inr (OutOfRange 250 100), [])"
    using geofence_decision [where distance_m = grid_distance_m,
        OF student_1_is_student current_monday_9 no_row_yet d2]
    by (simp add: venue_of_monday)
  show ?thesis
    using student_1_is_student current_monday_9 d1 d2 a b by blast
qed

text \<open>
  C7, as stated: a mark attempt at a venue with radius \<open>\<le> 0\<close> is rejected before any
  row is created. It fails at a venue of radius 0 for a student standing at the venue's
  coordinates: the distance is 0, the test \<open>distance > radius\<close> is false, and the row is
  created.
\<close>

theorem radius_zero_counterexample:
  "radius (tt_lecture_hall monday_8_to_10_at_Z) \<le> 0
   \<and> current_timetable [monday_8_to_10_at_Z] 0 (hours 9) (department student_1)
       = Some monday_8_to_10_at_Z
   \<and> mark_attendance grid_distance_m (hours 9) 0 [monday_8_to_10_at_Z] [] student_1
        (Some (65244 / 10000)) (Some (33792 / 10000))
     = (Inr (Created (present_row 5)), [present_row 5])"
proof -
  have "mark_attendance grid_distance_m (hours 9) 0 [monday_8_to_10_at_Z] [] student_1
        (Some (65244 / 10000)) (Some (33792 / 10000))
     = (Inr (Created (present_row 5)), [present_row 5])"
    unfolding mark_attendance_geofence [where distance_m = grid_distance_m,
        OF student_1_is_student current_monday_9_at_Z no_row_yet]
    by (simp add: grid_distance_m_def present_row_def student_1_def
        monday_8_to_10_at_Z_def venue_Z_def course_A_def)
  then show ?thesis
    using current_monday_9_at_Z by (simp add: venue_of_monday_at_Z)
qed

text \<open>
  C7, amended. The view checks neither the range of the supplied coordinates nor the
  sign of the radius, and has no "invalid coordinate" answer. For a student with a
  resolved timetable row and no prior row, an attempt with a coordinate out of range or
  a radius \<open>\<le> 0\<close> is decided like any other: the uncaught library error when the distance
  function raises, "out of range" with the distance and the radius when
  \<open>distance > radius\<close>, both with the table unchanged, and a created row otherwise.
\<close>

theorem mark_attendance_no_coordinate_check:
  assumes "user_type usr = STUDENT"
    and "current_timetable timetables today current_time (department usr) = Some tt"
    and "filter (\<lambda>a. att_student a = user_id usr \<and> att_timetable a = timetable_id tt)
           attendances = []"
    and "la < - 90 \<or> 90 < la \<or> lo < - 180 \<or> 180 < lo \<or> radius (tt_lecture_hall tt) \<le> 0"
  shows "mark_attendance distance_m current_time today timetables attendances usr
           (Some la) (Some lo)
         = (case distance_m (latitude (tt_lecture_hall tt), longitude (tt_lecture_hall tt))
                   (la, lo) of
              None \<Rightarrow> (Inl ValueError, attendances)
            | Some d \<Rightarrow>
                if d > real_of_int (radius (tt_lecture_hall tt))
                then (Inr (OutOfRange d (radius (tt_lecture_hall tt))), attendances)
                else (Inr (Created \<lparr>att_student = user_id usr,
                                     att_course = course_id (tt_course tt),
                                     att_timetable = timetable_id tt,
                                     att_latitude = Some la, att_longitude = Some lo,
                                     att_status = PRESENT\<rparr>),
                      attendances @ [\<lparr>att_student = user_id usr,
                                     att_course = course_id (tt_course tt),
                                     att_timetable = timetable_id tt,
                                     att_latitude = Some la, att_longitude = Some lo,
                                     att_status = PRESENT\<rparr>]))"
  by (rule mark_attendance_geofence [OF assms(1-3)])

theorem mark_attendance_no_coordinate_check_witness:
  "radius (tt_lecture_hall monday_8_to_10_at_Z) \<le> 0
   \<and> mark_attendance grid_distance_m (hours 9) 0 [monday_8_to_10_at_Z] [] student_1
        (Some (65254 / 10000)) (Some (33792 / 10000))
     = (Inr (OutOfRange 100 0), [])"
proof -
  have r: "(65254 / 10000 :: real) < - 90 \<or> 90 < (65254 / 10000 :: real)
      \<or> (33792 / 10000 :: real) < - 180 \<or> 180 < (33792 / 10000 :: real)
      \<or> radius (tt_lecture_hall monday_8_to_10_at_Z) \<le> 0"
    by (simp add: venue_of_monday_at_Z)
  show ?thesis
    using mark_attendance_no_coordinate_check [where distance_m = grid_distance_m,
        OF student_1_is_student current_monday_9_at_Z no_row_yet r]
    by (simp add: venue_of_monday_at_Z grid_distance_m_def)
qed

section \<open>Voiding and the audit\<close>

lemma update_status_voided_count:
  "snd (update_status_voided attendances t) = marked_attendance attendances t"
  by (simp add: update_status_voided_def marked_attendance_def)

lemma filter_timetable_voided:
  "filter (\<lambda>a. att_timetable a = tid)
     (map (\<lambda>a. if att_timetable a = tid then a\<lparr>att_status := VOIDED\<rparr> else a) attendances)
   = map (\<lambda>a. a\<lparr>att_status := VOIDED\<rparr>) (filter (\<lambda>a. att_timetable a = tid) attendances)"
  by (induction attendances) auto

lemma map_voided_idem:
  "map (\<lambda>a. if att_timetable a = tid then a\<lparr>att_status := VOIDED\<rparr> else a)
     (map (\<lambda>a. if att_timetable a = tid then a\<lparr>att_status := VOIDED\<rparr> else a) attendances)
   = map (\<lambda>a. if att_timetable a = tid then a\<lparr>att_status := VOIDED\<rparr> else a) attendances"
  by (induction attendances) auto

text \<open>
  C2, as stated: a second run of the voiding step right after a first run that voided at
  least one row reports 0. It fails for a timetable row with one attendance row: both
  runs report 1, because \<open>update\<close> counts the rows the filter matches, and the filter
  does not look at the status.
\<close>

theorem voiding_twice_counterexample:
  "0 < snd (update_status_voided [present_row 1] monday_8_to_10)
   \<and> snd (update_status_voided (fst (update_status_voided [present_row 1] monday_8_to_10))
           monday_8_to_10) \<noteq> 0"
  by (simp add: update_status_voided_def present_row_def monday_8_to_10_def)

text \<open>
  C2, amended. Voiding is idempotent in its effect, not in its count: a second run right
  after a first one leaves the table as the first run left it, with every row of the
  timetable row VOIDED, and reports the same count as the first run, the number of
  attendance rows of the timetable row whatever their status.
\<close>

theorem voiding_twice:
  "update_status_voided (fst (update_status_voided attendances t)) t
     = (fst (update_status_voided attendances t), snd (update_status_voided attendances t))
   \<and> snd (update_status_voided attendances t)
       = length (filter (\<lambda>a. att_timetable a = timetable_id t) attendances)
   \<and> (\<forall>a \<in> set (fst (update_status_voided attendances t)).
         att_timetable a = timetable_id t \<longrightarrow> att_status a = VOIDED)"
  by (auto simp add: update_status_voided_def filter_timetable_voided map_voided_idem)

theorem voiding_twice_witness:
  "update_status_voided (fst (update_status_voided [present_row 1, present_row 2] monday_8_to_10))
      monday_8_to_10
     = ([(present_row 1)\<lparr>att_status := VOIDED\<rparr>, present_row 2], 1)"
  using voiding_twice [of "[present_row 1, present_row 2]" monday_8_to_10]
  by (simp add: update_status_voided_def present_row_def monday_8_to_10_def)

lemma validate_loop_raises:
  assumes "t \<in> set classes" and "total_students users t = 0"
  shows "fst (validate_loop users classes attendances n) = Inl ZeroDivisionError"
  using assms
proof (induction classes arbitrary: attendances n)
  case Nil
  then show ?case by simp
next
  case (Cons c classes)
  then show ?case by (cases "total_students users c = 0") auto
qed

text \<open>
  C1. The claim is that a recent class with no expected student is skipped without
  error. The audit loop has no such guard: it divides by the cohort size, so for any
  recent class whose cohort is empty the run ends with the uncaught
  \<open>ZeroDivisionError\<close> instead of a summary.
\<close>

theorem post_zero_cohort_raises:
  assumes "t \<in> set (recent_classes timetables today one_hour_ago current_time)"
    and "total_students users t = 0"
  shows "fst (post users timetables attendances today one_hour_ago current_time)
           = Inl ZeroDivisionError"
proof -
  have "fst (validate_loop users (recent_classes timetables today one_hour_ago current_time)
               attendances 0) = Inl ZeroDivisionError"
    using assms by (rule validate_loop_raises)
  then show ?thesis
    by (auto simp add: post_def Let_def split: prod.splits sum.splits)
qed

lemma recent_course_B:
  "recent_classes [monday_8_to_10_course_B] 0 (hours 9) (hours 10) = [monday_8_to_10_course_B]"
  by (simp add: recent_classes_def timetable_ordering_def monday_8_to_10_course_B_def hours_def)

lemma no_students_course_B: "total_students [student_1] monday_8_to_10_course_B = 0"
  by (simp add: total_students_def monday_8_to_10_course_B_def course_B_def student_1_def)

theorem post_zero_cohort_raises_witness:
  "monday_8_to_10_course_B \<in> set (recent_classes [monday_8_to_10_course_B] 0 (hours 9) (hours 10))
   \<and> total_students [student_1] monday_8_to_10_course_B = 0
   \<and> fst (post [student_1] [monday_8_to_10_course_B] [] 0 (hours 9) (hours 10))
       = Inl ZeroDivisionError"
proof -
  have m: "monday_8_to_10_course_B
             \<in> set (recent_classes [monday_8_to_10_course_B] 0 (hours 9) (hours 10))"
    by (simp add: recent_course_B)
  show ?thesis
    using post_zero_cohort_raises [OF m no_students_course_B] m no_students_course_B by blast
qed

section \<open>The attendance percentage\<close>

text \<open>
  The local variable \<open>percentage\<close> of \<open>course_stats\<close> is the number of the student's
  PRESENT rows for the course, divided by the number of timetable rows of the course,
  times 100, and 0 when the course has no timetable row. The counts are stated as
  numbers of row positions.
\<close>

lemma course_stats_percentage_counts:
  "course_stats_percentage timetables attendances usr crs
     = (if card {i. i < length timetables \<and>
                    course_id (tt_course (timetables ! i)) = course_id crs} = 0
        then 0
        else real (card {i. i < length attendances \<and>
                            att_student (attendances ! i) = user_id usr \<and>
                            att_course (attendances ! i) = course_id crs \<and>
                            att_status (attendances ! i) = PRESENT})
             / real (card {i. i < length timetables \<and>
                              course_id (tt_course (timetables ! i)) = course_id crs})
             * 100)
   \<and> ((\<forall>t \<in> set timetables. course_id (tt_course t) \<noteq> course_id crs) \<longrightarrow>
        course_stats_percentage timetables attendances usr crs = 0)"
proof
  show "course_stats_percentage timetables attendances usr crs
     = (if card {i. i < length timetables \<and>
                    course_id (tt_course (timetables ! i)) = course_id crs} = 0
        then 0
        else real (card {i. i < length attendances \<and>
                            att_student (attendances ! i) = user_id usr \<and>
                            att_course (attendances ! i) = course_id crs \<and>
                            att_status (attendances ! i) = PRESENT})
             / real (card {i. i < length timetables \<and>
                              course_id (tt_course (timetables ! i)) = course_id crs})
             * 100)"
    by (simp add: course_stats_percentage_def Let_def length_filter_conv_card)
  show "(\<forall>t \<in> set timetables. course_id (tt_course t) \<noteq> course_id crs) \<longrightarrow>
        course_stats_percentage timetables attendances usr crs = 0"
  proof
    assume "\<forall>t \<in> set timetables. course_id (tt_course t) \<noteq> course_id crs"
    then have "filter (\<lambda>t. course_id (tt_course t) = course_id crs) timetables = []"
      by (simp add: filter_empty_conv)
    then show "course_stats_percentage timetables attendances usr crs = 0"
      by (simp add: course_stats_percentage_def)
  qed
qed

lemma four_classes_of_course_A:
  "filter (\<lambda>t. course_id (tt_course t) = course_id course_A)
     [monday_8_to_10, monday_9_to_11, monday_7_to_12_disabled, tuesday_8_to_10]
   = [monday_8_to_10, monday_9_to_11, monday_7_to_12_disabled, tuesday_8_to_10]"
  by (simp add: monday_8_to_10_def monday_9_to_11_def monday_7_to_12_disabled_def
      tuesday_8_to_10_def)

lemma three_present_rows:
  "filter (\<lambda>a. att_student a = user_id student_1 \<and> att_course a = course_id course_A \<and>
               att_status a = PRESENT) [present_row 1, present_row 2, present_row 3]
   = [present_row 1, present_row 2, present_row 3]"
  by (simp add: present_row_def student_1_def course_A_def)

lemma three_of_four:
  "course_stats_percentage
     [monday_8_to_10, monday_9_to_11, monday_7_to_12_disabled, tuesday_8_to_10]
     [present_row 1, present_row 2, present_row 3] student_1 course_A = 75"
  unfolding course_stats_percentage_def four_classes_of_course_A three_present_rows
  by simp

lemma get_field_quartile: "get_field ''quartile'' = Inl FieldDoesNotExist"
  by (simp add: get_field_def attendance_fields_def)

lemma find_course_A: "find (\<lambda>c. course_id c = 1) [course_A, course_B] = Some course_A"
  by (simp add: course_A_def)

lemma three_active_classes:
  "filter (\<lambda>t. course_id (tt_course t) = att_course (present_row 1) \<and> active t)
     [monday_8_to_10, monday_9_to_11, monday_7_to_12_disabled, tuesday_8_to_10]
   = [monday_8_to_10, monday_9_to_11, tuesday_8_to_10]"
  by (simp add: monday_8_to_10_def monday_9_to_11_def monday_7_to_12_disabled_def
      tuesday_8_to_10_def present_row_def course_A_def)

lemma three_present_rows_of_row:
  "filter (\<lambda>a. att_student a = att_student (present_row 1) \<and>
               att_course a = att_course (present_row 1) \<and>
               att_status a = PRESENT) [present_row 1, present_row 2, present_row 3]
   = [present_row 1, present_row 2, present_row 3]"
  by (simp add: present_row_def)

lemma property_three_of_three:
  "attendance_percentage
     [monday_8_to_10, monday_9_to_11, monday_7_to_12_disabled, tuesday_8_to_10]
     [present_row 1, present_row 2, present_row 3] (present_row 1) = 100"
  unfolding attendance_percentage_def three_active_classes three_present_rows_of_row
  by simp

text \<open>
  C6. The claim is that the percentage returned for a student is the number of the
  student's PRESENT rows for the course, divided by the number of timetable rows of the
  course, times 100. \<open>course_stats\<close> computes that number and never returns it: for
  every student and every existing course the view ends with the uncaught
  \<open>FieldDoesNotExist\<close>, raised while the response is built, because \<open>quartile\<close> is a
  property of the model and not a field.
\<close>

theorem course_stats_student_raises:
  assumes "user_type usr = STUDENT"
    and "find (\<lambda>c. course_id c = cid) course_table = Some crs"
  shows "course_stats course_table timetables attendances users usr (Some cid)
           = Inl FieldDoesNotExist"
  using assms by (simp add: course_stats_def get_field_quartile Let_def)

text \<open>
  For a student with three PRESENT rows in a course of four timetable rows, one of them
  disabled: \<open>course_stats\<close> raises, its local percentage is 75, and the property
  \<open>attendance_percentage\<close>, the percentage the serializer returns, is 100.
\<close>

theorem course_stats_student_raises_witness:
  "user_type student_1 = STUDENT
   \<and> find (\<lambda>c. course_id c = 1) [course_A, course_B] = Some course_A
   \<and> course_stats [course_A, course_B]
        [monday_8_to_10, monday_9_to_11, monday_7_to_12_disabled, tuesday_8_to_10]
        [present_row 1, present_row 2, present_row 3] [student_1] student_1 (Some 1)
       = Inl FieldDoesNotExist
   \<and> course_stats_percentage
        [monday_8_to_10, monday_9_to_11, monday_7_to_12_disabled, tuesday_8_to_10]
        [present_row 1, present_row 2, present_row 3] student_1 course_A = 75
   \<and> attendance_percentage
        [monday_8_to_10, monday_9_to_11, monday_7_to_12_disabled, tuesday_8_to_10]
        [present_row 1, present_row 2, present_row 3] (present_row 1) = 100"
  using course_stats_student_raises [OF student_1_is_student find_course_A]
    student_1_is_student find_course_A three_of_four property_three_of_three
  by blast

text \<open>
  Where every timetable row of the course is enabled, the property
  \<open>attendance_percentage\<close> of a record of the student and course and the percentage of
  \<open>course_stats\<close> are the same number.
\<close>

lemma percentages_agree_when_all_active:
  assumes "\<forall>t \<in> set timetables. course_id (tt_course t) = course_id crs \<longrightarrow> active t"
    and "att_student self = user_id usr" and "att_course self = course_id crs"
  shows "attendance_percentage timetables attendances self
         = course_stats_percentage timetables attendances usr crs"
proof -
  have "filter (\<lambda>t. course_id (tt_course t) = course_id crs \<and> active t) timetables
        = filter (\<lambda>t. course_id (tt_course t) = course_id crs) timetables"
    using assms(1) by (intro filter_cong) auto
  then show ?thesis
    using assms(2,3) by (simp add: attendance_percentage_def course_stats_percentage_def)
qed

lemma one_active_class:
  "filter (\<lambda>t. course_id (tt_course t) = att_course (present_row 1) \<and> active t)
     [monday_8_to_10, monday_7_to_12_disabled] = [monday_8_to_10]"
  by (simp add: monday_8_to_10_def monday_7_to_12_disabled_def present_row_def course_A_def)

lemma two_classes:
  "filter (\<lambda>t. course_id (tt_course t) = course_id course_A)
     [monday_8_to_10, monday_7_to_12_disabled] = [monday_8_to_10, monday_7_to_12_disabled]"
  by (simp add: monday_8_to_10_def monday_7_to_12_disabled_def)

text \<open>
  C10. The claim is that the two percentage computations agree for every person and
  course. For a course with one enabled and one disabled timetable row and a student
  with one PRESENT row, the property \<open>attendance_percentage\<close> is 100 (quartile 5) while
  \<open>course_stats\<close> computes 50 (whose quartile would be 2).
\<close>

theorem percentage_computations_disagree:
  "att_student (present_row 1) = user_id student_1
   \<and> att_course (present_row 1) = course_id course_A
   \<and> attendance_percentage [monday_8_to_10, monday_7_to_12_disabled] [present_row 1]
        (present_row 1) = 100
   \<and> course_stats_percentage [monday_8_to_10, monday_7_to_12_disabled] [present_row 1]
        student_1 course_A = 50
   \<and> quartile [monday_8_to_10, monday_7_to_12_disabled] [present_row 1] (present_row 1) = 5
   \<and> quartile_of 50 = 2"
proof -
  have a: "attendance_percentage [monday_8_to_10, monday_7_to_12_disabled] [present_row 1]
        (present_row 1) = 100"
    unfolding attendance_percentage_def one_active_class
    by (simp add: present_row_def)
  have b: "course_stats_percentage [monday_8_to_10, monday_7_to_12_disabled] [present_row 1]
        student_1 course_A = 50"
    unfolding course_stats_percentage_def two_classes
    by (simp add: present_row_def student_1_def course_A_def)
  have q: "quartile [monday_8_to_10, monday_7_to_12_disabled] [present_row 1] (present_row 1) = 5"
    unfolding quartile_def a by (simp add: quartile_of_def)
  have q2: "quartile_of 50 = 2"
    by (simp add: quartile_of_def)
  have s: "att_student (present_row 1) = user_id student_1"
    by (simp add: present_row_def student_1_def)
  have c: "att_course (present_row 1) = course_id course_A"
    by (simp add: present_row_def course_A_def)
  show ?thesis
    using a b q q2 s c by blast
qed

end
